theory Spec2Isabelle
  imports Complex_Main "HOL-Library.Monad_Syntax"
begin

section \<open>The pricing engine of \<^verbatim>\<open>main.c\<close>\<close>

text \<open>
  The engine is a handful of pure C functions over \<^verbatim>\<open>double\<close>. They are embedded
  twice. In the first embedding a \<^verbatim>\<open>double\<close> is a mathematical real: \<^verbatim>\<open>exp\<close>,
  \<^verbatim>\<open>log\<close>, \<^verbatim>\<open>sqrt\<close>, \<^verbatim>\<open>fabs\<close> and \<^verbatim>\<open>M_PI\<close> are \<^term>\<open>exp\<close>, \<^term>\<open>ln\<close>,
  \<^term>\<open>sqrt\<close>, \<^term>\<open>abs\<close> and \<^term>\<open>pi\<close>; rounding, overflow and underflow are not
  modelled, and the allocation of the response is taken to succeed. It serves the
  statements about values at inputs where every intermediate result is an ordinary
  number. The second embedding, further down, keeps the infinities, NaN, the sign of
  zero and the finite range of a \<^verbatim>\<open>double\<close>, and the failure of \<^verbatim>\<open>malloc\<close>. The
  option type is the C \<^verbatim>\<open>char\<close> that the request carries.
\<close>

subsection \<open>Cumulative normal approximation\<close>

definition cdf :: "real \<Rightarrow> real" where
  "cdf x =
    (let t = 1.0 / (1.0 + 0.3275911 * \<bar>x\<bar>);
         y = 0.254829592 * t + 0.080788966 * t * t + 0.0003238188 * t * t * t;
         y = 0.39894228 * exp (- 0.5 * x * x) * y
     in if x \<ge> 0.0 then 0.5 + y else 0.5 - y)"

subsection \<open>The arguments d1 and d2\<close>

definition calculate_standard_normal_variable_stock ::
  "real \<Rightarrow> real \<Rightarrow> real \<Rightarrow> real \<Rightarrow> real \<Rightarrow> real" where
  "calculate_standard_normal_variable_stock S K T r sigma =
    (ln (S / K) + (r + 0.5 * sigma * sigma) * T) / (sigma * sqrt T)"

definition calculate_standard_normal_variable_strike ::
  "real \<Rightarrow> real \<Rightarrow> real \<Rightarrow> real \<Rightarrow> real" where
  "calculate_standard_normal_variable_strike d1 T r sigma = d1 - sigma * sqrt T"

subsection \<open>Price and Greeks\<close>

definition calculate_european_option ::
  "real \<Rightarrow> real \<Rightarrow> real \<Rightarrow> real \<Rightarrow> real \<Rightarrow> real \<Rightarrow> char \<Rightarrow> real" where
  "calculate_european_option d1 d2 S K T r type =
    (if type = CHR ''c'' then S * cdf d1 - K * exp (- r * T) * cdf d2
     else K * exp (- r * T) * cdf (- d2) - S * cdf (- d1))"

definition calculate_delta :: "real \<Rightarrow> char \<Rightarrow> real" where
  "calculate_delta d1 type =
    (let option_type = (if type = CHR ''c'' then 1 else - 1) :: int
     in real_of_int option_type * cdf (real_of_int option_type * d1))"

definition calculate_gamma :: "real \<Rightarrow> real \<Rightarrow> real \<Rightarrow> real \<Rightarrow> real" where
  "calculate_gamma d1 S T sigma =
    exp (- 0.5 * d1 * d1) / (S * sigma * sqrt (2 * pi * T))"

definition calculate_vega :: "real \<Rightarrow> real \<Rightarrow> real \<Rightarrow> real" where
  "calculate_vega d1 S T = S * sqrt T * exp (- 0.5 * d1 * d1) / sqrt (2 * pi)"

definition calculate_theta ::
  "real \<Rightarrow> real \<Rightarrow> real \<Rightarrow> real \<Rightarrow> real \<Rightarrow> real \<Rightarrow> real \<Rightarrow> char \<Rightarrow> real" where
  "calculate_theta d1 d2 S K T r sigma type =
    (let option_type = (if type = CHR ''c'' then 1 else - 1) :: int
     in - 0.5 * sigma * S * exp (- 0.5 * d1 * d1) / sqrt (2 * pi * T)
        - real_of_int option_type * r * K * exp (- r * T)
          * cdf (real_of_int option_type * d2))"

subsection \<open>Doubles with infinities, NaN, signed zero and a finite range\<close>

text \<open>
  A \<^verbatim>\<open>double\<close> in the second embedding is a finite value, negative zero, an infinity
  or NaN; \<open>Fin 0\<close> is positive zero. The operations follow IEEE 754 on the special
  values: an invalid operation yields NaN, NaN propagates, a non-zero number divided by
  zero is an infinity, the sign of a zero result is that of the exact result or, for an
  exact zero, given by the rules for sums and products. A finite result keeps its exact
  real value (rounding to 53 bits is not modelled), but it leaves the finite range as a
  binary64 value does under rounding to nearest: a magnitude of at least
  \<open>2\<^sup>1\<^sup>0\<^sup>2\<^sup>4 - 2\<^sup>9\<^sup>7\<^sup>0\<close> becomes an infinity and one of at most \<open>2\<^sup>-\<^sup>1\<^sup>0\<^sup>7\<^sup>5\<close> becomes a
  zero.
\<close>

datatype double = Fin real | NZero | PInf | NInf | NaN



fun val :: "double \<Rightarrow> real" where
  "val (Fin v) = v"
| "val NZero = 0"
| "val PInf = 0"
| "val NInf = 0"
| "val NaN = 0"




fun is_finite :: "double \<Rightarrow> bool" where
  "is_finite (Fin v) = True"
| "is_finite NZero = True"
| "is_finite PInf = False"
| "is_finite NInf = False"
| "is_finite NaN = False"


definition zero_of :: "bool \<Rightarrow> double" where
  "zero_of neg = (if neg then NZero else Fin 0)"












subsection \<open>The engine over these doubles\<close>









subsection \<open>Request, response and the entry point\<close>

text \<open>The two structs, with the model of \<^verbatim>\<open>double\<close> as a parameter.\<close>

record 'a RequestOptionParameters =
  S :: 'a
  K :: 'a
  T :: 'a
  r :: 'a
  sigma :: 'a
  type :: char

record 'a ResponseOptionParameters =
  price :: 'a
  delta :: 'a
  gamma :: 'a
  vega :: 'a
  theta :: 'a

definition init_option_parameters ::
  "real \<Rightarrow> real \<Rightarrow> real \<Rightarrow> real \<Rightarrow> real \<Rightarrow> char \<Rightarrow> real RequestOptionParameters" where
  "init_option_parameters S0 K0 T0 r0 sigma0 type0 =
    \<lparr>S = S0, K = K0, T = T0, r = r0, sigma = sigma0, type = type0\<rparr>"

definition calculateOption ::
  "real RequestOptionParameters \<Rightarrow> real ResponseOptionParameters" where
  "calculateOption request =
    (let d1 = calculate_standard_normal_variable_stock
                (S request) (K request) (T request) (r request) (sigma request);
         d2 = calculate_standard_normal_variable_strike
                d1 (T request) (r request) (sigma request)
     in \<lparr>price = calculate_european_option d1 d2
                   (S request) (K request) (T request) (r request) (type request),
         delta = calculate_delta d1 (type request),
         gamma = calculate_gamma d1 (S request) (T request) (sigma request),
         vega = calculate_vega d1 (S request) (T request),
         theta = calculate_theta d1 d2 (S request) (K request) (T request) (r request)
                   (sigma request) (type request)\<rparr>)"

text \<open>
  The entry point over the second model of \<^verbatim>\<open>double\<close>. The code calls
  \<^verbatim>\<open>exit(EXIT_FAILURE)\<close> when \<^verbatim>\<open>malloc\<close> returns \<^verbatim>\<open>NULL\<close>; whether it does is the
  argument \<open>allocated\<close>. The first component of the result lists the calls that
  \<^verbatim>\<open>calculateOption\<close> makes to the engine's functions, in the order of the source.
\<close>

datatype 'a outcome = Exit_failure | Returned 'a



text \<open>Whether a run returned a response whose five fields are all finite.\<close>

fun all_finite :: "double ResponseOptionParameters outcome \<Rightarrow> bool" where
  "all_finite Exit_failure = False"
| "all_finite (Returned response) =
    (is_finite (price response) \<and> is_finite (delta response) \<and> is_finite (gamma response)
     \<and> is_finite (vega response) \<and> is_finite (theta response))"

subsection \<open>Predicates on doubles and the requests used below\<close>

fun nonneg_upto :: "real \<Rightarrow> double \<Rightarrow> bool" where
  "nonneg_upto b (Fin v) = (0 \<le> v \<and> v \<le> b)"
| "nonneg_upto b NZero = False"
| "nonneg_upto b PInf = False"
| "nonneg_upto b NInf = False"
| "nonneg_upto b NaN = False"





section \<open>Bounds on the cumulative-normal function\<close>

text \<open>The correction term that \<^const>\<open>cdf\<close> adds to or subtracts from one half.\<close>

definition cdf_y :: "real \<Rightarrow> real" where
  "cdf_y x =
    (let t = 1 / (1 + 0.3275911 * \<bar>x\<bar>)
     in 0.39894228 * exp (- 0.5 * x * x)
        * (0.254829592 * t + 0.080788966 * t * t + 0.0003238188 * t * t * t))"

lemma cdf_split: "cdf x = (if 0 \<le> x then 1 / 2 + cdf_y x else 1 / 2 - cdf_y x)"
  by (simp add: cdf_def cdf_y_def Let_def)

lemma cdf_y_minus: "cdf_y (- x) = cdf_y x"
  by (simp add: cdf_y_def)

lemma cdf_t_range:
  fixes x :: real
  defines "t \<equiv> 1 / (1 + 0.3275911 * \<bar>x\<bar>)"
  shows "0 < t" and "t \<le> 1"
proof -
  have d: "1 \<le> 1 + 0.3275911 * \<bar>x\<bar>" by simp
  then show "0 < t" unfolding t_def by simp
  from d show "t \<le> 1" unfolding t_def by simp
qed

lemma cdf_poly_bounds:
  fixes t :: real
  assumes "0 < t" and "t \<le> 1"
  shows "0 < 0.254829592 * t + 0.080788966 * t * t + 0.0003238188 * t * t * t"
    and "0.254829592 * t + 0.080788966 * t * t + 0.0003238188 * t * t * t
         \<le> 0.254829592 + 0.080788966 + 0.0003238188"
proof -
  have t2: "t * t \<le> 1" using assms by (simp add: mult_le_one)
  have t3: "t * t * t \<le> 1" using assms t2 by (simp add: mult_le_one)
  have p2: "0 < t * t" using assms by simp
  have p3: "0 < t * t * t" using assms by simp
  show "0 < 0.254829592 * t + 0.080788966 * t * t + 0.0003238188 * t * t * t"
    using assms p2 p3 by (simp add: add_pos_pos mult.assoc)
  show "0.254829592 * t + 0.080788966 * t * t + 0.0003238188 * t * t * t
         \<le> 0.254829592 + 0.080788966 + 0.0003238188"
    using assms t2 t3 by (simp add: mult.assoc)
qed

lemma exp_gauss_range: "0 < exp (- 0.5 * x * x)" "exp (- 0.5 * x * x) \<le> (1::real)"
proof -
  show "0 < exp (- 0.5 * x * x)" by simp
  have "0 \<le> x * x" by simp
  then have "- 0.5 * x * x \<le> 0" by (simp add: mult.assoc)
  then show "exp (- 0.5 * x * x) \<le> 1" by (simp only: exp_le_one_iff)
qed

lemma cdf_y_bounds:
  "0 < cdf_y x"
  "cdf_y x \<le> 0.39894228 * (0.254829592 + 0.080788966 + 0.0003238188)"
proof -
  define t where "t = 1 / (1 + 0.3275911 * \<bar>x\<bar>)"
  define p where "p = 0.254829592 * t + 0.080788966 * t * t + 0.0003238188 * t * t * t"
  define e where "e = exp (- 0.5 * x * x)"
  define b :: real where "b = 0.254829592 + 0.080788966 + 0.0003238188"
  have y: "cdf_y x = 0.39894228 * e * p"
    unfolding cdf_y_def Let_def t_def p_def e_def ..
  have t: "0 < t" "t \<le> 1" unfolding t_def by (rule cdf_t_range)+
  have p: "0 < p" "p \<le> b" unfolding p_def b_def by (rule cdf_poly_bounds[OF t])+
  have e: "0 < e" "e \<le> 1" unfolding e_def by (rule exp_gauss_range)+
  have "0 < e * p" using e p by simp
  then show "0 < cdf_y x" unfolding y by (simp add: mult.assoc)
  have "e * p \<le> 1 * b" by (rule mult_mono) (use e p in simp_all)
  then have "0.39894228 * (e * p) \<le> 0.39894228 * b" by simp
  then show "cdf_y x \<le> 0.39894228 * (0.254829592 + 0.080788966 + 0.0003238188)"
    unfolding y b_def by (simp only: mult.assoc)
qed

lemma cdf_y_le_num: "cdf_y x < 0.1341"
  using cdf_y_bounds(2)[of x] by simp

lemma cdf_range: "0.3659 < cdf x" "cdf x < 0.6341"
  using cdf_y_le_num[of x] cdf_y_bounds(1)[of x] by (simp_all add: cdf_split)

lemma cdf_at_zero:
  "cdf 0 = 1 / 2 + 0.39894228 * (0.254829592 + 0.080788966 + 0.0003238188)"
  by (simp add: cdf_def)

lemma cdf_reflect: "x \<noteq> 0 \<Longrightarrow> cdf x + cdf (- x) = 1"
  by (simp add: cdf_split cdf_y_minus)

section \<open>Numeric bounds used at the concrete inputs\<close>

lemma exp_neg_bounds:
  fixes x :: real
  assumes "0 \<le> x"
  shows "1 - x \<le> exp (- x)" and "exp (- x) \<le> inverse (1 + x + x\<^sup>2 / 2)"
proof -
  show "1 - x \<le> exp (- x)" using exp_ge_add_one_self[of "- x"] by simp
  have q: "1 + x + x\<^sup>2 / 2 \<le> exp x" using assms by (rule exp_lower_Taylor_quadratic)
  have pos: "0 < 1 + x + x\<^sup>2 / 2" using assms by (simp add: add_pos_nonneg)
  have "inverse (exp x) \<le> inverse (1 + x + x\<^sup>2 / 2)"
    using q pos by (rule le_imp_inverse_le)
  then show "exp (- x) \<le> inverse (1 + x + x\<^sup>2 / 2)" by (simp only: exp_minus)
qed

lemma exp_005: "0.95 \<le> exp (- (1/20) :: real)" "exp (- (1/20) :: real) < 0.9513"
  using exp_neg_bounds[of "1/20"] by (simp_all add: power2_eq_square)

lemma cdf_035: "0.6100 < cdf (7/20)" "cdf (7/20) < 0.6103"
proof -
  define x :: real where "x = 7/20"
  define t where "t = 1 / (1 + 0.3275911 * \<bar>x\<bar>)"
  define p where "p = 0.254829592 * t + 0.080788966 * t * t + 0.0003238188 * t * t * t"
  define e where "e = exp (- 0.5 * x * x)"
  have y: "cdf_y x = 0.39894228 * e * p"
    unfolding cdf_y_def Let_def t_def p_def e_def ..
  have "0 \<le> x" unfolding x_def by simp
  then have "cdf x = 1 / 2 + cdf_y x" by (simp only: cdf_split if_True)
  then have c: "cdf x = 1 / 2 + 0.39894228 * e * p" by (simp only: y)
  have p: "0.2938 < p" "p < 0.2939" unfolding p_def t_def x_def by simp_all
  have "e = exp (- (49/800))" unfolding e_def x_def by simp
  then have e: "0.93875 \<le> e" "e < 0.94063"
    using exp_neg_bounds[of "49/800"] by (simp_all add: power2_eq_square)
  have lo: "0.93875 * 0.2938 \<le> e * p"
    by (rule mult_mono) (use e p in simp_all)
  have hi: "e * p \<le> 0.94063 * 0.2939"
    by (rule mult_mono) (use e p in simp_all)
  show "0.6100 < cdf (7/20)" using lo unfolding c x_def[symmetric] by (simp add: mult.assoc)
  show "cdf (7/20) < 0.6103" using hi unfolding c x_def[symmetric] by (simp add: mult.assoc)
qed


lemma cdf_015: "0.6248 < cdf (3/20)" "cdf (3/20) < 0.6249"
proof -
  define x :: real where "x = 3/20"
  define t where "t = 1 / (1 + 0.3275911 * \<bar>x\<bar>)"
  define p where "p = 0.254829592 * t + 0.080788966 * t * t + 0.0003238188 * t * t * t"
  define e where "e = exp (- 0.5 * x * x)"
  have y: "cdf_y x = 0.39894228 * e * p"
    unfolding cdf_y_def Let_def t_def p_def e_def ..
  have "0 \<le> x" unfolding x_def by simp
  then have "cdf x = 1 / 2 + cdf_y x" by (simp only: cdf_split if_True)
  then have c: "cdf x = 1 / 2 + 0.39894228 * e * p" by (simp only: y)
  have p: "0.31657 < p" "p < 0.31658" unfolding p_def t_def x_def by simp_all
  have "e = exp (- (9/800))" unfolding e_def x_def by simp
  then have e: "0.98875 \<le> e" "e < 0.98883"
    using exp_neg_bounds[of "9/800"] by (simp_all add: power2_eq_square)
  have lo: "0.98875 * 0.31657 \<le> e * p"
    by (rule mult_mono) (use e p in simp_all)
  have hi: "e * p \<le> 0.98883 * 0.31658"
    by (rule mult_mono) (use e p in simp_all)
  show "0.6248 < cdf (3/20)" using lo unfolding c x_def[symmetric] by (simp add: mult.assoc)
  show "cdf (3/20) < 0.6249" using hi unfolding c x_def[symmetric] by (simp add: mult.assoc)
qed

lemma arctan_le_arg:
  fixes x :: real
  assumes "0 \<le> x"
  shows "arctan x \<le> x"
proof -
  have "(\<lambda>u. u - arctan u) 0 \<le> (\<lambda>u. u - arctan u) x"
  proof (rule DERIV_nonneg_imp_nondecreasing[OF assms])
    fix u :: real
    have d: "((\<lambda>u. u - arctan u) has_real_derivative (1 - inverse (1 + u\<^sup>2))) (at u)"
      by (auto intro!: derivative_eq_intros)
    have "inverse (1 + u\<^sup>2) \<le> 1"
      by (rule inverse_le_1_iff[THEN iffD2]) simp
    then have "0 \<le> 1 - inverse (1 + u\<^sup>2)" by simp
    with d show "\<exists>y. ((\<lambda>u. u - arctan u) has_real_derivative y) (at u) \<and> 0 \<le> y"
      by blast
  qed
  then show ?thesis by simp
qed

lemma pi_less_16_5: "pi < 16 / 5"
proof -
  have a: "arctan (1 / 5) \<le> 1 / 5" by (rule arctan_le_arg) simp
  have b: "0 < arctan (1 / 239 :: real)" by simp
  have "4 * arctan (1 / 5) - arctan (1 / 239) < 4 / 5" using a b by linarith
  then have "pi / 4 < 4 / 5" by (simp only: machin)
  then show ?thesis by simp
qed

lemma sqrt_two_pi_less: "sqrt (2 * pi) < 253 / 100"
proof (rule real_less_lsqrt)
  show "(0::real) \<le> 253 / 100" by simp
  show "2 * pi < (253 / 100)\<^sup>2" using pi_less_16_5 by (simp add: power2_eq_square)
qed

lemma gauss_over_sqrt_two_pi: "371 / 100 < 10 * exp (- (49/800)) / sqrt (2 * pi)"
proof -
  have e: "0.93875 \<le> exp (- (49/800) :: real)"
    using exp_neg_bounds(1)[of "49/800"] by simp
  have s: "0 < sqrt (2 * pi)" by simp
  have "371 / 100 * sqrt (2 * pi) < 371 / 100 * (253 / 100)"
    using sqrt_two_pi_less by simp
  also have "\<dots> < 10 * 0.93875" by simp
  also have "\<dots> \<le> 10 * exp (- (49/800))" using e by simp
  finally show ?thesis using s by (simp only: pos_less_divide_eq)
qed

lemma scenario_price:
  "price (calculateOption \<lparr>S = 100, K = 100, T = 1, r = 0.05, sigma = 0.2, type = CHR ''c''\<rparr>)
   = 100 * cdf (7/20) - 100 * exp (- (1/20)) * cdf (3/20)"
  by (simp add: calculateOption_def Let_def calculate_european_option_def
      calculate_standard_normal_variable_stock_def calculate_standard_normal_variable_strike_def)

lemma scenario_theta:
  "theta (calculateOption \<lparr>S = 100, K = 100, T = 1, r = 0.05, sigma = 0.2, type = CHR ''c''\<rparr>)
   = - (10 * exp (- (49/800)) / sqrt (2 * pi)) - 5 * exp (- (1/20)) * cdf (3/20)"
  by (simp add: calculateOption_def Let_def calculate_theta_def
      calculate_standard_normal_variable_stock_def calculate_standard_normal_variable_strike_def)

section \<open>Facts about the engine over doubles\<close>
















lemma nonneg_upto_const: "0 \<le> c \<Longrightarrow> nonneg_upto c (Fin c)"
  by simp




lemma val_zero_of: "val (zero_of neg) = 0"
  by (simp add: zero_of_def)




















section \<open>The claims about the cumulative-normal function\<close>

text \<open>
  C10. For every real \<open>x\<close> the value \<open>cdf x\<close> stays within
  \<open>0.39894228 * (0.254829592 + 0.080788966 + 0.0003238188)\<close>, about \<open>0.13402\<close>, of one
  half: the correction term is a product of the constant, a Gaussian factor in \<open>(0, 1]\<close>
  and a polynomial in \<open>t \<in> (0, 1]\<close> with positive coefficients. So \<open>cdf\<close> never leaves
  the interval from about \<open>0.366\<close> to about \<open>0.634\<close>, and the delta of a call, which is
  \<open>cdf d1\<close>, never exceeds about \<open>0.634\<close>.
\<close>

theorem cdf_near_half:
  "\<bar>cdf x - 0.5\<bar> \<le> 0.39894228 * (0.254829592 + 0.080788966 + 0.0003238188)
   \<and> 0.3659 < cdf x \<and> cdf x < 0.6341
   \<and> calculate_delta d1 (CHR ''c'') = cdf d1
   \<and> calculate_delta d1 (CHR ''c'') < 0.6341"
proof -
  have "\<bar>cdf x - 0.5\<bar> = cdf_y x"
    using cdf_y_bounds(1)[of x] by (simp add: cdf_split)
  then have "\<bar>cdf x - 0.5\<bar> \<le> 0.39894228 * (0.254829592 + 0.080788966 + 0.0003238188)"
    using cdf_y_bounds(2)[of x] by (simp only:)
  moreover have "calculate_delta d1 (CHR ''c'') = cdf d1"
    by (simp add: calculate_delta_def)
  ultimately show ?thesis
    using cdf_range[of x] cdf_range[of d1] by (simp only: simp_thms)
qed

text \<open>
  C1. The function is documented as the cumulative normal distribution. The standard
  normal distribution is symmetric about \<open>0\<close>, so its distribution function is exactly
  one half at \<open>0\<close>. The code returns about \<open>0.634\<close> there: its approximation error at
  \<open>0\<close> is more than \<open>0.134\<close>, not about \<open>10\<^sup>-\<^sup>7\<close>.
\<close>

theorem cdf_zero_off_by_0134:
  "cdf 0 = 0.5 + 0.39894228 * (0.254829592 + 0.080788966 + 0.0003238188)
   \<and> \<bar>cdf 0 - 0.5\<bar> > 0.134"
  by (simp add: cdf_at_zero)

text \<open>
  C4. At \<open>x = 0\<close> both \<open>cdf x\<close> and \<open>cdf (- x)\<close> take the branch \<open>x \<ge> 0\<close>, and the sum
  is about \<open>1.268\<close>, not \<open>1\<close> (everywhere else the sum is exactly \<open>1\<close>, lemma
  \<open>cdf_reflect\<close>).
\<close>

theorem cdf_symmetry_fails_at_zero:
  "cdf 0 + cdf (- 0) = 1 + 2 * (0.39894228 * (0.254829592 + 0.080788966 + 0.0003238188))
   \<and> \<bar>cdf 0 + cdf (- 0) - 1.0\<bar> > 0.268"
  by (simp add: cdf_at_zero)

section \<open>The claims about the engine\<close>

text \<open>
  C2. The scenario \<open>S = 100\<close>, \<open>K = 100\<close>, \<open>T = 1\<close>, \<open>r = 0.05\<close>, \<open>sigma = 0.2\<close>, call.
  Here \<open>d1 = 0.35\<close> and \<open>d2 = 0.15\<close>. The Black-Scholes reference values are a price of
  \<open>10.45\<close> and a theta of \<open>-6.41\<close>. The code, with its \<open>cdf\<close>, returns a price between
  \<open>1.5\<close> and \<open>1.7\<close> and a theta below \<open>-6.6\<close>: both lie outside the tolerance of
  \<open>0.05\<close>.
\<close>

theorem scenario_call_price_and_theta:
  "1.5 < price (calculateOption \<lparr>S = 100, K = 100, T = 1, r = 0.05, sigma = 0.2, type = CHR ''c''\<rparr>)
   \<and> price (calculateOption \<lparr>S = 100, K = 100, T = 1, r = 0.05, sigma = 0.2, type = CHR ''c''\<rparr>) < 1.7
   \<and> theta (calculateOption \<lparr>S = 100, K = 100, T = 1, r = 0.05, sigma = 0.2, type = CHR ''c''\<rparr>) < - 6.6"
proof -
  define E :: real where "E = exp (- (1/20))"
  define c1 where "c1 = cdf (7/20)"
  define c2 where "c2 = cdf (3/20)"
  define g where "g = 10 * exp (- (49/800)) / sqrt (2 * pi)"
  have E: "0.95 \<le> E" "E < 0.9513" unfolding E_def by (rule exp_005)+
  have c1: "0.6100 < c1" "c1 < 0.6103" unfolding c1_def by (rule cdf_035)+
  have c2: "0.6248 < c2" "c2 < 0.6249" unfolding c2_def by (rule cdf_015)+
  have g: "371 / 100 < g" unfolding g_def by (rule gauss_over_sqrt_two_pi)
  have lo: "0.95 * 0.6248 \<le> E * c2" by (rule mult_mono) (use E c2 in simp_all)
  have hi: "E * c2 \<le> 0.9513 * 0.6249" by (rule mult_mono) (use E c2 in simp_all)
  have "1.5 < 100 * c1 - 100 * (E * c2)" using c1 hi by simp
  moreover have "100 * c1 - 100 * (E * c2) < 1.7" using c1 lo by simp
  moreover have "- g - 5 * (E * c2) < - 6.6" using g lo by simp
  ultimately show ?thesis
    unfolding scenario_price scenario_theta E_def c1_def c2_def g_def
    by (simp only: mult.assoc simp_thms)
qed

text \<open>
  C3. Put-call parity at \<open>S = K = 100\<close>, \<open>T = 1\<close>, \<open>r = -0.125\<close>, \<open>sigma = 0.5\<close>. These
  inputs give \<open>d1 = 0\<close> and \<open>d2 = -0.5\<close>. The call takes \<open>cdf 0\<close> and the put takes
  \<open>cdf (- 0)\<close>, which is the same number, about \<open>0.634\<close>. The call price minus the put
  price exceeds \<open>S - K * exp (- r * T)\<close> by more than \<open>26.8\<close>, not by at most
  \<open>10\<^sup>-\<^sup>6\<close>.
\<close>

theorem put_call_parity_fails:
  "price (calculateOption \<lparr>S = 100, K = 100, T = 1, r = - 0.125, sigma = 0.5, type = CHR ''c''\<rparr>)
   - price (calculateOption \<lparr>S = 100, K = 100, T = 1, r = - 0.125, sigma = 0.5, type = CHR ''p''\<rparr>)
   - (100 - 100 * exp (- (- 0.125) * 1)) > 26.8"
proof -
  have s: "cdf (- (1/2)) + cdf (1/2) = 1" using cdf_reflect[of "- (1/2)"] by simp
  have "100 * cdf 0 - 100 * exp (1/8) * cdf (- (1/2))
        - (100 * exp (1/8) * cdf (1/2) - 100 * cdf 0) - (100 - 100 * exp (1/8))
        = 200 * cdf 0 - 100 - 100 * exp (1/8) * (cdf (- (1/2)) + cdf (1/2) - 1)"
    by (simp add: algebra_simps)
  also have "\<dots> = 200 * cdf 0 - 100" by (simp only: s) simp
  also have "\<dots> > 26.8" by (simp add: cdf_at_zero)
  finally show ?thesis
    by (simp add: calculateOption_def Let_def calculate_european_option_def
      calculate_standard_normal_variable_stock_def calculate_standard_normal_variable_strike_def)
qed




text \<open>
  C7. At \<open>T = 10\<^sup>-\<^sup>6\<close> the price is not near the intrinsic value. For \<open>S = 200\<close>,
  \<open>K = 100\<close>, \<open>r = 0\<close>, \<open>sigma = 1\<close> the intrinsic value of the call is \<open>100\<close> and
  that of the put is \<open>0\<close>; the code returns a call price below \<open>91\<close> and a put price
  below \<open>-9\<close>, because \<open>cdf\<close> stays between \<open>0.3659\<close> and \<open>0.6341\<close>.
\<close>

theorem boundary_not_intrinsic:
  "price (calculateOption
      \<lparr>S = 200, K = 100, T = 1 / 10 ^ 6, r = 0, sigma = 1, type = CHR ''c''\<rparr>) < 91
   \<and> \<bar>price (calculateOption
      \<lparr>S = 200, K = 100, T = 1 / 10 ^ 6, r = 0, sigma = 1, type = CHR ''c''\<rparr>)
      - max (200 - 100) 0\<bar> > 1 / 100
   \<and> price (calculateOption
      \<lparr>S = 200, K = 100, T = 1 / 10 ^ 6, r = 0, sigma = 1, type = CHR ''p''\<rparr>) < - 9
   \<and> \<bar>price (calculateOption
      \<lparr>S = 200, K = 100, T = 1 / 10 ^ 6, r = 0, sigma = 1, type = CHR ''p''\<rparr>)
      - max (100 - 200) 0\<bar> > 1 / 100"
proof -
  define d1 where "d1 = calculate_standard_normal_variable_stock 200 100 (1 / 10 ^ 6) 0 1"
  define d2 where "d2 = calculate_standard_normal_variable_strike d1 (1 / 10 ^ 6) 0 1"
  have c: "200 * cdf d1 - 100 * cdf d2 < 91"
    using cdf_range(2)[of d1] cdf_range(1)[of d2] by simp
  have p: "100 * cdf (- d2) - 200 * cdf (- d1) < - 9"
    using cdf_range(2)[of "- d2"] cdf_range(1)[of "- d1"] by simp
  have pc: "price (calculateOption
      \<lparr>S = 200, K = 100, T = 1 / 10 ^ 6, r = 0, sigma = 1, type = CHR ''c''\<rparr>)
      = 200 * cdf d1 - 100 * cdf d2"
    by (simp add: calculateOption_def Let_def calculate_european_option_def d1_def d2_def)
  have pp: "price (calculateOption
      \<lparr>S = 200, K = 100, T = 1 / 10 ^ 6, r = 0, sigma = 1, type = CHR ''p''\<rparr>)
      = 100 * cdf (- d2) - 200 * cdf (- d1)"
    by (simp add: calculateOption_def Let_def calculate_european_option_def d1_def d2_def)
  show ?thesis unfolding pc pp using c p by simp
qed

text \<open>
  C9. The option type is compared with \<open>'c'\<close> only. A request whose type is any other
  character, inside or outside \<open>{'c', 'p'}\<close>, gets the price, the delta and the theta
  (and so the whole response) of the put with the same numbers; nothing is rejected.
\<close>

theorem non_call_type_is_put:
  assumes "ty \<noteq> CHR ''c''"
  shows "price (calculateOption (req\<lparr>type := ty\<rparr>))
           = price (calculateOption (req\<lparr>type := CHR ''p''\<rparr>))
       \<and> delta (calculateOption (req\<lparr>type := ty\<rparr>))
           = delta (calculateOption (req\<lparr>type := CHR ''p''\<rparr>))
       \<and> theta (calculateOption (req\<lparr>type := ty\<rparr>))
           = theta (calculateOption (req\<lparr>type := CHR ''p''\<rparr>))
       \<and> calculateOption (req\<lparr>type := ty\<rparr>) = calculateOption (req\<lparr>type := CHR ''p''\<rparr>)"
  using assms
  by (simp add: calculateOption_def Let_def calculate_european_option_def calculate_delta_def
      calculate_theta_def)

theorem non_call_type_is_put_witness:
  "CHR ''x'' \<noteq> CHR ''c''
   \<and> calculateOption \<lparr>S = 100, K = 100, T = 1, r = 0.05, sigma = 0.2, type = CHR ''x''\<rparr>
     = calculateOption \<lparr>S = 100, K = 100, T = 1, r = 0.05, sigma = 0.2, type = CHR ''p''\<rparr>"
  using non_call_type_is_put
    [of "CHR ''x''" "\<lparr>S = 100, K = 100, T = 1, r = 0.05, sigma = 0.2, type = CHR ''c''\<rparr>"]
  by simp

end
